theory Spec2Isabelle
  imports Complex_Main "HOL-Library.Word" "HOL-Library.Char_ord" "HOL-Library.List_Lexorder"
begin

section \<open>Errors and collective primitives\<close>

text \<open>
  The exceptions that the modelled functions of \<^verbatim>\<open>horovod/torch/functions.py\<close> can raise.
  \<open>HorovodInternalError\<close> stands for any failure reported by the collective layer,
  \<open>UnpicklingError\<close> for any failure of the serialisation codec.
\<close>

datatype error =
    ValueError
  | TypeError
  | IndexError
  | KeyError
  | OverflowError
  | RuntimeError
  | UnpicklingError
  | HorovodInternalError

type_synonym byte = "8 word"
type_synonym int32 = "32 word"

text \<open>
  A collective is executed by all ranks together.  The object exchange functions are
  therefore modelled on the whole world at once: a list with one entry per rank, rank
  \<open>r\<close> at index \<open>r\<close>.  A rank that raises leaves the other ranks without a result; the
  world-level result is then the first error in rank order.
\<close>

fun sequence :: "(error + 'a) list \<Rightarrow> error + 'a list" where
  "sequence [] = Inr []"
| "sequence (x # xs) =
     (case x of
        Inl e \<Rightarrow> Inl e
      | Inr v \<Rightarrow> (case sequence xs of Inl e \<Rightarrow> Inl e | Inr vs \<Rightarrow> Inr (v # vs)))"

text \<open>
  Modelled from the spec: \<^verbatim>\<open>broadcast_\<close> of \<^verbatim>\<open>horovod.torch.mpi_ops\<close>, which is not among
  the sources (named \<open>broadcast_inplace\<close> here).  The root's buffer value is copied into every rank's identically shaped
  buffer; buffers here are one-dimensional, so the shape is the length.  A root outside
  the world or a rank whose buffer has another shape is an error of the collective layer.
\<close>

definition broadcast_inplace :: "'a list list \<Rightarrow> nat \<Rightarrow> error + 'a list list" where
  "broadcast_inplace bufs root_rank =
     (if root_rank < length bufs
         \<and> list_all (\<lambda>b. length b = length (bufs ! root_rank)) bufs
      then Inr (map (\<lambda>_. bufs ! root_rank) bufs)
      else Inl HorovodInternalError)"

text \<open>
  Modelled from the spec: \<^verbatim>\<open>allgather\<close> of \<^verbatim>\<open>horovod.torch.mpi_ops\<close>, which is not among
  the sources.  Every rank receives every rank's buffer, concatenated in rank order.
\<close>

definition allgather :: "'a list list \<Rightarrow> 'a list list" where
  "allgather bufs = map (\<lambda>_. concat bufs) bufs"

section \<open>Tensor constructors used by the object exchange\<close>

text \<open>
  \<^verbatim>\<open>torch.IntTensor([n])\<close> stores the Python integer \<open>n\<close> in a 32-bit signed element; the
  conversion keeps the low 32 bits.  \<^verbatim>\<open>sz.tolist()[0]\<close> reads the element back as a signed
  integer.
\<close>

definition IntTensor1 :: "nat \<Rightarrow> int32 list" where
  "IntTensor1 n = [word_of_nat n]"

definition tolist0 :: "int32 list \<Rightarrow> error + int" where
  "tolist0 sz = (case sz of [] \<Rightarrow> Inl IndexError | w # _ \<Rightarrow> Inr (sint w))"

text \<open>
  \<^verbatim>\<open>torch.ByteTensor(n)\<close> for an integer \<open>n\<close> allocates \<open>n\<close> bytes and raises for a negative
  \<open>n\<close>.  The bytes are uninitialised in the source; the model fills them with zero, and
  every use overwrites them by a broadcast before they are read.
\<close>

definition ByteTensor :: "int \<Rightarrow> error + byte list" where
  "ByteTensor n = (if n < 0 then Inl RuntimeError else Inr (replicate (nat n) 0))"

section \<open>broadcast\_object\<close>

text \<open>
  The codec (\<^verbatim>\<open>cloudpickle.dump\<close>, \<^verbatim>\<open>cloudpickle.load\<close>) is a pair of parameters \<open>dump\<close> and
  \<open>load\<close>.  \<open>objs ! r\<close> is the object that rank \<open>r\<close> passes to the call.

  The three steps follow the source: lines 209-217 build the size tensor of every rank and
  broadcast it; lines 209-220 build the payload tensor (on a rank other than the root a
  buffer of the received size) and broadcast it; lines 222-226 deserialise on every rank
  but the root.
\<close>

definition size_tensor :: "('o \<Rightarrow> byte list) \<Rightarrow> nat \<Rightarrow> nat \<Rightarrow> 'o \<Rightarrow> int32 list" where
  "size_tensor dump root_rank rank obj =
     (if rank = root_rank then IntTensor1 (length (dump obj)) else IntTensor1 0)"

definition payload_tensor ::
  "('o \<Rightarrow> byte list) \<Rightarrow> nat \<Rightarrow> nat \<Rightarrow> 'o \<Rightarrow> int32 list \<Rightarrow> error + byte list" where
  "payload_tensor dump root_rank rank obj sz =
     (if rank = root_rank then Inr (dump obj)
      else (case tolist0 sz of Inl e \<Rightarrow> Inl e | Inr n \<Rightarrow> ByteTensor n))"

definition received_object ::
  "(byte list \<Rightarrow> error + 'o) \<Rightarrow> nat \<Rightarrow> nat \<Rightarrow> 'o \<Rightarrow> byte list \<Rightarrow> error + 'o" where
  "received_object load root_rank rank obj t =
     (if rank \<noteq> root_rank then load t else Inr obj)"

definition broadcast_object ::
  "('o \<Rightarrow> byte list) \<Rightarrow> (byte list \<Rightarrow> error + 'o) \<Rightarrow> 'o list \<Rightarrow> nat \<Rightarrow> error + 'o list" where
  "broadcast_object dump load objs root_rank =
     (let ranks = [0..<length objs] in
      case broadcast_inplace (map (\<lambda>r. size_tensor dump root_rank r (objs ! r)) ranks) root_rank of
        Inl e \<Rightarrow> Inl e
      | Inr szs \<Rightarrow>
     (case sequence (map (\<lambda>r. payload_tensor dump root_rank r (objs ! r) (szs ! r)) ranks) of
        Inl e \<Rightarrow> Inl e
      | Inr ts \<Rightarrow>
     (case broadcast_inplace ts root_rank of
        Inl e \<Rightarrow> Inl e
      | Inr ts' \<Rightarrow>
        sequence (map (\<lambda>r. received_object load root_rank r (objs ! r) (ts' ! r)) ranks))))"

section \<open>allgather\_object\<close>

text \<open>
  Python's \<^verbatim>\<open>xs[start:end]\<close>: a negative bound counts from the end, and both bounds are
  clamped to the sequence; slicing never raises.
\<close>

definition slice_bound :: "int \<Rightarrow> int \<Rightarrow> nat" where
  "slice_bound n i = nat (min n (max 0 (if i < 0 then i + n else i)))"

definition py_slice :: "'a list \<Rightarrow> int \<Rightarrow> int \<Rightarrow> 'a list" where
  "py_slice xs start stop =
     (let n = int (length xs); a = slice_bound n start; b = slice_bound n stop
      in take (b - a) (drop a xs))"

text \<open>
  \<^verbatim>\<open>select(i)\<close> of the source.  The elements of \<open>sizes\<close> are 32-bit; Python's \<^verbatim>\<open>sum\<close>
  starts from the integer 0 and adds them in a wider integer type, which the model takes
  as unbounded.  \<^verbatim>\<open>sizes[i]\<close> raises for an index outside the array.
\<close>

definition select :: "int32 list \<Rightarrow> 'a list \<Rightarrow> nat \<Rightarrow> error + 'a list" where
  "select sizes gathered i =
     (let start = sum_list (map sint (take i sizes)) in
      if i < length sizes
      then Inr (py_slice gathered start (start + sint (sizes ! i)))
      else Inl IndexError)"

definition gather_rank ::
  "(byte list \<Rightarrow> error + 'o) \<Rightarrow> nat \<Rightarrow> int32 list \<Rightarrow> byte list \<Rightarrow> error + 'o list" where
  "gather_rank load world_size sizes gathered =
     sequence (map (\<lambda>i. case select sizes gathered i of Inl e \<Rightarrow> Inl e | Inr seg \<Rightarrow> load seg)
                   [0..<world_size])"

definition allgather_object ::
  "('o \<Rightarrow> byte list) \<Rightarrow> (byte list \<Rightarrow> error + 'o) \<Rightarrow> 'o list \<Rightarrow> error + 'o list list" where
  "allgather_object dump load objs =
     (let ranks = [0..<length objs];
          ts = map (\<lambda>r. dump (objs ! r)) ranks;
          szs = map (\<lambda>t. IntTensor1 (length t)) ts;
          sizes = allgather szs;
          gathered = allgather ts
      in sequence (map (\<lambda>r. gather_rank load (length objs) (sizes ! r) (gathered ! r)) ranks))"

section \<open>A concrete codec for examples\<close>

text \<open>
  A small codec used to evaluate the object exchange on concrete inputs: the natural number
  \<open>n\<close> is serialised as \<open>n\<close> zero bytes and read back as the length.  \<open>lossy_load\<close> is a
  decoder that does not invert \<open>unary_dump\<close>; it makes visible which ranks deserialise.
\<close>

definition unary_dump :: "nat \<Rightarrow> byte list" where
  "unary_dump n = replicate n 0"

definition unary_load :: "byte list \<Rightarrow> error + nat" where
  "unary_load bs = Inr (length bs)"


section \<open>Python values and float32 tensors\<close>

subsection \<open>Floating-point numbers\<close>

text \<open>
  A Python \<^verbatim>\<open>float\<close> and an element of a float32 tensor are modelled by their value: a
  rational number, an infinity or not-a-number.  The sign of zero is not modelled.
\<close>

datatype pyfloat = Fin rat | PInf | NInf | NaN

fun ilog2 :: "nat \<Rightarrow> nat" where
  "ilog2 n = (if n < 2 then 0 else Suc (ilog2 (n div 2)))"

declare ilog2.simps [simp del]

definition pow2 :: "int \<Rightarrow> rat" where
  "pow2 e = (if 0 \<le> e then 2 ^ nat e else 1 / 2 ^ nat (- e))"

text \<open>\<open>exponent x\<close> is the binary exponent of a non-zero \<open>x\<close>: \<open>pow2 e \<le> \<bar>x\<bar> < pow2 (e + 1)\<close>.\<close>

definition exponent :: "rat \<Rightarrow> int" where
  "exponent x =
     (let (n, d) = quotient_of x;
          c = int (ilog2 (nat \<bar>n\<bar>)) - int (ilog2 (nat d))
      in if pow2 c \<le> \<bar>x\<bar> then c else c - 1)"

text \<open>The integer nearest to \<open>n / d\<close> for a positive \<open>d\<close>, ties to the even neighbour.\<close>

definition round_half_even :: "int \<Rightarrow> int \<Rightarrow> int" where
  "round_half_even n d =
     (let f = n div d; r = n mod d
      in if 2 * r < d then f
         else if d < 2 * r then f + 1
         else if even f then f else f + 1)"

text \<open>
  Rounding to the nearest number of a binary format with \<open>p\<close> bits of precision, least
  normal exponent \<open>emin\<close> and greatest exponent \<open>emax\<close>, ties to even: \<open>x\<close> is rounded to a
  multiple \<open>m * pow2 k\<close> of the spacing \<open>pow2 k\<close> of the format at \<open>x\<close>.  A result beyond
  the greatest finite number becomes an infinity.
\<close>

definition round_bin :: "nat \<Rightarrow> int \<Rightarrow> int \<Rightarrow> rat \<Rightarrow> pyfloat" where
  "round_bin p emin emax x =
     (if x = 0 then Fin 0
      else
        let (n, d) = quotient_of x;
            k = max (exponent x) emin - (int p - 1);
            m = (if 0 \<le> k then round_half_even n (d * 2 ^ nat k)
                 else round_half_even (n * 2 ^ nat (- k)) d);
            y = of_int m * pow2 k
        in if pow2 (emax + 1) \<le> \<bar>y\<bar> then (if x < 0 then NInf else PInf) else Fin y)"

definition to_f32 :: "pyfloat \<Rightarrow> pyfloat" where
  "to_f32 f = (case f of Fin r \<Rightarrow> round_bin 24 (- 126) 127 r | _ \<Rightarrow> f)"

subsection \<open>Values, type signatures and arrays\<close>

text \<open>
  The non-tensor values that occur as optimizer options and state fields: numbers, truth
  values and (nested) tuples and lists of them.  \<open>type_tag\<close> is the result of Python's
  \<^verbatim>\<open>type(x)\<close> on such a value.
\<close>

datatype pyval =
    VInt int
  | VFloat pyfloat
  | VBool bool
  | VTuple "pyval list"
  | VList "pyval list"

datatype type_tag = TInt | TFloat | TBool | TTuple | TList

fun type_of :: "pyval \<Rightarrow> type_tag" where
  "type_of (VInt _) = TInt"
| "type_of (VFloat _) = TFloat"
| "type_of (VBool _) = TBool"
| "type_of (VTuple _) = TTuple"
| "type_of (VList _) = TList"

text \<open>
  What \<^verbatim>\<open>_get_types\<close> returns: the type of a value that is not iterable, or the pair of the
  type and the list of the elements' signatures.
\<close>

datatype dtypes = Scalar type_tag | Container type_tag "dtypes list"

text \<open>
  A float32 tensor or numpy array (\<open>Rows\<close>, one entry per index of the first dimension), or
  a single float32 element (\<open>Elem\<close>).
\<close>

datatype ndarray = Elem pyfloat | Rows "ndarray list"

subsection \<open>Wrapping a value in a float32 tensor\<close>

text \<open>
  \<^verbatim>\<open>torch.Tensor([v])\<close> infers the shape by following first elements and then stores every
  leaf as a float32 element; a value that does not fit the inferred shape raises.  A Python
  integer is unpacked as a double, which torch refuses beyond \<open>2 ^ 53\<close>, and then narrowed
  to float32 like a Python float; \<^verbatim>\<open>True\<close> and \<^verbatim>\<open>False\<close> are stored as 1 and 0.
\<close>

fun items :: "pyval \<Rightarrow> pyval list option" where
  "items (VTuple xs) = Some xs"
| "items (VList xs) = Some xs"
| "items _ = None"

fun shape_of :: "pyval \<Rightarrow> nat list" where
  "shape_of (VTuple xs) = length xs # (case xs of [] \<Rightarrow> [] | x # _ \<Rightarrow> shape_of x)"
| "shape_of (VList xs) = length xs # (case xs of [] \<Rightarrow> [] | x # _ \<Rightarrow> shape_of x)"
| "shape_of _ = []"

definition elem_of_int :: "int \<Rightarrow> error + pyfloat" where
  "elem_of_int n = (if 2 ^ 53 < \<bar>n\<bar> then Inl RuntimeError else Inr (to_f32 (Fin (of_int n))))"

fun store_scalar :: "pyval \<Rightarrow> error + ndarray" where
  "store_scalar (VInt n) = (case elem_of_int n of Inl e \<Rightarrow> Inl e | Inr f \<Rightarrow> Inr (Elem f))"
| "store_scalar (VFloat f) = Inr (Elem (to_f32 f))"
| "store_scalar (VBool b) = Inr (Elem (Fin (if b then 1 else 0)))"
| "store_scalar _ = Inl TypeError"

fun store :: "nat list \<Rightarrow> pyval \<Rightarrow> error + ndarray" where
  "store [] v = store_scalar v"
| "store (n # ns) v =
     (case items v of
        None \<Rightarrow> Inl TypeError
      | Some xs \<Rightarrow>
          if length xs \<noteq> n then Inl ValueError
          else (case sequence (map (store ns) xs) of
                  Inl e \<Rightarrow> Inl e
                | Inr rs \<Rightarrow> Inr (Rows rs)))"

text \<open>
  \<open>Tensor1 v\<close> is \<^verbatim>\<open>torch.Tensor([v])\<close>, a tensor whose first dimension has size one, and
  \<open>numpy0 t\<close> is \<^verbatim>\<open>t.cpu().numpy()[0]\<close>.
\<close>

definition Tensor1 :: "pyval \<Rightarrow> error + ndarray" where
  "Tensor1 v = store (1 # shape_of v) (VList [v])"

definition numpy0 :: "ndarray \<Rightarrow> error + ndarray" where
  "numpy0 t = (case t of Rows (r # _) \<Rightarrow> Inr r | _ \<Rightarrow> Inl IndexError)"

subsection \<open>Casting back\<close>

text \<open>
  Calling a type on a numpy value.  \<^verbatim>\<open>int\<close> truncates towards zero and raises for an
  infinity or not-a-number, \<^verbatim>\<open>float\<close> keeps the value, \<^verbatim>\<open>bool\<close> tests for non-zero; on an
  array these three accept only an array of exactly one element.  \<^verbatim>\<open>tuple\<close> and \<^verbatim>\<open>list\<close>
  iterate over the first dimension; their elements are numpy values, which the model
  identifies with the Python float of the same value and with lists.
\<close>

fun item :: "ndarray \<Rightarrow> pyfloat option" where
  "item (Elem f) = Some f"
| "item (Rows [r]) = item r"
| "item (Rows _) = None"

fun int_of_float :: "pyfloat \<Rightarrow> error + pyval" where
  "int_of_float (Fin r) = Inr (VInt (if 0 \<le> r then \<lfloor>r\<rfloor> else \<lceil>r\<rceil>))"
| "int_of_float NaN = Inl ValueError"
| "int_of_float _ = Inl OverflowError"

fun np_value :: "ndarray \<Rightarrow> pyval" where
  "np_value (Elem f) = VFloat f"
| "np_value (Rows rs) = VList (map np_value rs)"

fun call_type :: "type_tag \<Rightarrow> ndarray \<Rightarrow> error + pyval" where
  "call_type TInt x = (case item x of None \<Rightarrow> Inl TypeError | Some f \<Rightarrow> int_of_float f)"
| "call_type TFloat x = (case item x of None \<Rightarrow> Inl TypeError | Some f \<Rightarrow> Inr (VFloat f))"
| "call_type TBool x = (case item x of None \<Rightarrow> Inl ValueError | Some f \<Rightarrow> Inr (VBool (f \<noteq> Fin 0)))"
| "call_type TTuple x = (case x of Elem _ \<Rightarrow> Inl TypeError | Rows rs \<Rightarrow> Inr (VTuple (map np_value rs)))"
| "call_type TList x = (case x of Elem _ \<Rightarrow> Inl TypeError | Rows rs \<Rightarrow> Inr (VList (map np_value rs)))"

text \<open>\<^verbatim>\<open>_get_types\<close> (lines 109-113): tuples and lists are the iterable values.\<close>

fun get_types :: "pyval \<Rightarrow> dtypes" where
  "get_types (VTuple xs) = Container TTuple (map get_types xs)"
| "get_types (VList xs) = Container TList (map get_types xs)"
| "get_types x = Scalar (type_of x)"

text \<open>
  \<^verbatim>\<open>_recursive_cast\<close> (lines 116-122).  For a pair \<open>(t, dtypes)\<close> the source converts \<open>x\<close> with
  \<open>t\<close>, casts element \<open>i\<close> with \<open>dtypes[i]\<close> for every index of the converted \<open>x\<close>
  (\<open>cast_elements\<close>; a missing signature raises \<^verbatim>\<open>IndexError\<close>) and applies \<open>t\<close> to the list
  of results.  A \<open>t\<close> that is not \<^verbatim>\<open>tuple\<close> or \<^verbatim>\<open>list\<close> yields no sequence and raises.
\<close>

fun sequence_type :: "type_tag \<Rightarrow> (pyval list \<Rightarrow> pyval) option" where
  "sequence_type TTuple = Some VTuple"
| "sequence_type TList = Some VList"
| "sequence_type _ = None"

fun recursive_cast :: "ndarray \<Rightarrow> dtypes \<Rightarrow> error + pyval"
  and cast_elements :: "ndarray list \<Rightarrow> dtypes list \<Rightarrow> error + pyval list" where
  "recursive_cast x (Scalar dtype) = call_type dtype x"
| "recursive_cast x (Container t dtypes) =
     (case sequence_type t of
        None \<Rightarrow> Inl TypeError
      | Some mk \<Rightarrow>
          (case x of
             Elem _ \<Rightarrow> Inl TypeError
           | Rows xs \<Rightarrow>
               (case cast_elements xs dtypes of
                  Inl e \<Rightarrow> Inl e
                | Inr vs \<Rightarrow> Inr (mk vs))))"
| "cast_elements [] dtypes = Inr []"
| "cast_elements (x # xs) [] = Inl IndexError"
| "cast_elements (x # xs) (d # ds) =
     (case recursive_cast x d of
        Inl e \<Rightarrow> Inl e
      | Inr v \<Rightarrow> (case cast_elements xs ds of Inl e \<Rightarrow> Inl e | Inr vs \<Rightarrow> Inr (v # vs)))"

text \<open>
  The leaves of a value that a float32 element holds exactly: truth values, integers that
  are stored unchanged and floats that narrowing to float32 does not change.
\<close>

fun exact :: "pyval \<Rightarrow> bool" where
  "exact (VInt n) = (elem_of_int n = Inr (Fin (of_int n)))"
| "exact (VFloat f) = (to_f32 f = f)"
| "exact (VBool b) = True"
| "exact (VTuple xs) = list_all exact xs"
| "exact (VList xs) = list_all exact xs"

section \<open>Optimizers\<close>

text \<open>
  A parameter is a tensor object with its identity \<open>p_id\<close> (Python's \<^verbatim>\<open>id(p)\<close>), its data and
  its gradient.  A parameter group holds its options (the items of the group's dictionary
  other than \<^verbatim>\<open>'params'\<close>, in dictionary order) and its parameters.  The per-parameter state
  maps a parameter's identity to the dictionary of its state fields; a field is a tensor or
  a value that is not a tensor.  Dictionaries are association lists in insertion order.
\<close>

record param =
  p_id :: nat
  requires_grad :: bool
  p_data :: ndarray
  grad :: "ndarray option"

record group =
  options :: "(string \<times> pyval) list"
  params :: "param list"

datatype entry = TensorV ndarray | Plain pyval

text \<open>
  Of the optimizer's class the function looks at two things: whether the optimizer is an
  instance of \<^verbatim>\<open>torch.optim.LBFGS\<close> (line 71), and whether the module of its class is the
  module of \<^verbatim>\<open>DistributedOptimizer\<close> (line 91).
\<close>

record optimizer =
  is_lbfgs :: bool
  in_distributed_module :: bool
  param_groups :: "group list"
  state :: "(nat \<times> (string \<times> entry) list) list"

text \<open>
  What the function does to the outside, in order: assigning a gradient to a parameter,
  calling the optimizer's own \<^verbatim>\<open>step\<close> or the \<^verbatim>\<open>step\<close> of its parent class, starting an
  asynchronous broadcast under a name, waiting for it, and running a reconstruction
  callback.
\<close>

datatype event =
    SetGrad nat
  | Step
  | SuperStep
  | BroadcastAsync "string option"
  | Synchronize "string option"
  | Callback string

text \<open>
  The environment of one rank.  \<open>step\<close> is the optimizer's own update rule
  (\<^verbatim>\<open>optimizer.step()\<close>) and \<open>super_step\<close> the update rule of its parent class
  (\<^verbatim>\<open>super(optimizer.__class__, optimizer).step()\<close>).

  Modelled from the spec: \<^verbatim>\<open>broadcast_async_\<close> and \<^verbatim>\<open>synchronize\<close> of
  \<^verbatim>\<open>horovod.torch.mpi_ops\<close>, which are not among the sources.  An asynchronous broadcast
  returns a handle at once; waiting for the handle blocks until the transfer is complete,
  after which the tensor holds the root's value, in place.  \<open>received root_rank name t\<close> is
  what this rank's tensor \<open>t\<close> holds once the broadcast of that name from \<open>root_rank\<close> is
  complete, or the error that waiting for it raises.
\<close>

record env =
  step :: "optimizer \<Rightarrow> optimizer"
  super_step :: "optimizer \<Rightarrow> optimizer"
  received :: "nat \<Rightarrow> string option \<Rightarrow> ndarray \<Rightarrow> error + ndarray"

text \<open>The result of a call: it raises or returns, and leaves an optimizer and a trace.\<close>

datatype outcome =
    Raised error optimizer "event list"
  | Returned optimizer "event list"

subsection \<open>Dictionaries and keys\<close>

text \<open>\<^verbatim>\<open>d[k] = v\<close> on a dictionary: an existing key keeps its place, a new key is appended.\<close>

fun dict_set :: "'k \<Rightarrow> 'v \<Rightarrow> ('k \<times> 'v) list \<Rightarrow> ('k \<times> 'v) list" where
  "dict_set k v [] = [(k, v)]"
| "dict_set k v ((k', v') # kvs) =
     (if k = k' then (k, v) # kvs else (k', v') # dict_set k v kvs)"

text \<open>\<^verbatim>\<open>'%s.%d' % (s, n)\<close>: the string, a dot and the decimal digits of the number.\<close>

definition digit_char :: "nat \<Rightarrow> char" where
  "digit_char d = ''0123456789'' ! d"

fun str_nat :: "nat \<Rightarrow> string" where
  "str_nat n = (if n < 10 then [digit_char n] else str_nat (n div 10) @ [digit_char (n mod 10)])"

declare str_nat.simps [simp del]

definition format_key :: "string \<Rightarrow> nat \<Rightarrow> string" where
  "format_key s n = s @ ''.'' @ str_nat n"

subsection \<open>Lazy initialisation (lines 79-95)\<close>

text \<open>\<^verbatim>\<open>p.data.new(p.size()).zero_()\<close>: a tensor of zeros of the shape of the data.\<close>

fun zeros_like :: "ndarray \<Rightarrow> ndarray" where
  "zeros_like (Elem _) = Elem (Fin 0)"
| "zeros_like (Rows rs) = Rows (map zeros_like rs)"

definition needs_grad :: "optimizer \<Rightarrow> param \<Rightarrow> bool" where
  "needs_grad optimizer p \<longleftrightarrow> requires_grad p \<and> map_of (state optimizer) (p_id p) = None"

definition zero_grads :: "optimizer \<Rightarrow> optimizer" where
  "zero_grads optimizer =
     optimizer\<lparr>param_groups :=
       map (\<lambda>g. g\<lparr>params :=
              map (\<lambda>p. if needs_grad optimizer p
                        then p\<lparr>grad := Some (zeros_like (p_data p))\<rparr> else p)
                  (params g)\<rparr>)
           (param_groups optimizer)\<rparr>"

definition zero_grad_events :: "optimizer \<Rightarrow> event list" where
  "zero_grad_events optimizer =
     concat (map (\<lambda>g. map (\<lambda>p. SetGrad (p_id p)) (filter (needs_grad optimizer) (params g)))
                 (param_groups optimizer))"

definition initialize :: "env \<Rightarrow> optimizer \<Rightarrow> optimizer \<times> event list" where
  "initialize e optimizer =
     (if length (state optimizer) = 0
      then
        (if in_distributed_module optimizer
         then (super_step e (zero_grads optimizer), zero_grad_events optimizer @ [SuperStep])
         else (step e (zero_grads optimizer), zero_grad_events optimizer @ [Step]))
      else (optimizer, []))"

subsection \<open>Collecting the batch (lines 104-175)\<close>

text \<open>
  An entry of the list \<^verbatim>\<open>params\<close> is a key and a tensor object.  The tensor is either a new
  tensor that wraps a value, or the very tensor stored in a field of the optimizer's state:
  a broadcast into the latter changes the optimizer's state in place.

  A callback is the closure that \<^verbatim>\<open>_create_callback\<close> or \<^verbatim>\<open>_create_option_callback\<close>
  returns, given by the variables it captures.  The captured tensor is the one appended to
  \<^verbatim>\<open>params\<close> right after the callback is created; the model records its position in that
  list.
\<close>

datatype tensor_ref = Wrapped ndarray | StateField nat string

datatype callback =
    StateCallback nat string type_tag nat
  | OptionCallback nat string nat dtypes

record batch =
  named_params :: "(string \<times> tensor_ref) list"
  callbacks :: "string \<Rightarrow> callback option"
  occurrences :: "string \<Rightarrow> nat"

definition empty_batch :: batch where
  "empty_batch = \<lparr>named_params = [], callbacks = (\<lambda>_. None), occurrences = (\<lambda>_. 0)\<rparr>"

fun collect_options :: "nat \<Rightarrow> (string \<times> pyval) list \<Rightarrow> batch \<Rightarrow> error + batch" where
  "collect_options index [] b = Inr b"
| "collect_options index ((option_key, option_value) # rest) b =
     (if option_key = ''params'' then collect_options index rest b
      else
        let key = format_key option_key index;
            dtypes = get_types option_value
        in case Tensor1 option_value of
             Inl er \<Rightarrow> Inl er
           | Inr option_tensor \<Rightarrow>
               collect_options index rest
                 (b\<lparr>callbacks := (callbacks b)
                        (key \<mapsto> OptionCallback index option_key (length (named_params b)) dtypes),
                    named_params := named_params b @ [(key, Wrapped option_tensor)]\<rparr>))"

fun collect_fields :: "nat \<Rightarrow> (string \<times> entry) list \<Rightarrow> batch \<Rightarrow> error + batch" where
  "collect_fields pid [] b = Inr b"
| "collect_fields pid ((name, p) # rest) b =
     (let occ = (occurrences b)(name := occurrences b name + 1);
          key = format_key name (occ name)
      in case p of
           TensorV _ \<Rightarrow>
             collect_fields pid rest
               (b\<lparr>occurrences := occ,
                  named_params := named_params b @ [(key, StateField pid name)]\<rparr>)
         | Plain v \<Rightarrow>
             (case Tensor1 v of
                Inl er \<Rightarrow> Inl er
              | Inr t \<Rightarrow>
                  collect_fields pid rest
                    (b\<lparr>occurrences := occ,
                       callbacks := (callbacks b)
                         (key \<mapsto> StateCallback pid name (type_of v) (length (named_params b))),
                       named_params := named_params b @ [(key, Wrapped t)]\<rparr>)))"

fun collect_params ::
  "(nat \<times> (string \<times> entry) list) list \<Rightarrow> nat list \<Rightarrow> batch \<Rightarrow> error + batch" where
  "collect_params st [] b = Inr b"
| "collect_params st (pid # pids) b =
     (case map_of st pid of
        None \<Rightarrow> collect_params st pids b
      | Some param_state \<Rightarrow>
          (case collect_fields pid param_state b of
             Inl er \<Rightarrow> Inl er
           | Inr b' \<Rightarrow> collect_params st pids b'))"

text \<open>
  The loop over \<^verbatim>\<open>enumerate(state_dict['param_groups'])\<close>.  The group of the state
  dictionary has the options of the optimizer's group and, under \<^verbatim>\<open>'params'\<close>, the identities
  of its parameters.
\<close>

fun collect_groups ::
  "(nat \<times> (string \<times> entry) list) list \<Rightarrow> nat \<Rightarrow> group list \<Rightarrow> batch \<Rightarrow> error + batch" where
  "collect_groups st index [] b = Inr b"
| "collect_groups st index (g # gs) b =
     (case collect_options index (options g) b of
        Inl er \<Rightarrow> Inl er
      | Inr b1 \<Rightarrow>
          (case collect_params st (map p_id (params g)) b1 of
             Inl er \<Rightarrow> Inl er
           | Inr b2 \<Rightarrow> collect_groups st (Suc index) gs b2))"

subsection \<open>broadcast\_parameters (lines 30-59)\<close>

text \<open>
  The argument is a dictionary, a list of tensors with or without a name, or something
  else.  A dictionary is sorted by key.
\<close>

datatype 'a params_arg =
    ParamsDict "(string \<times> 'a) list"
  | ParamsList "(string option \<times> 'a) list"
  | ParamsOther

definition named :: "'a params_arg \<Rightarrow> error + (string option \<times> 'a) list" where
  "named ps =
     (case ps of
        ParamsDict kvs \<Rightarrow> Inr (map (\<lambda>(k, p). (Some k, p)) (sort_key fst kvs))
      | ParamsList nps \<Rightarrow> Inr nps
      | ParamsOther \<Rightarrow> Inl ValueError)"

text \<open>Reading a tensor object, and overwriting it in place.\<close>

fun dict_map_at :: "'k \<Rightarrow> ('v \<Rightarrow> 'v) \<Rightarrow> ('k \<times> 'v) list \<Rightarrow> ('k \<times> 'v) list" where
  "dict_map_at k f [] = []"
| "dict_map_at k f ((k', v) # kvs) =
     (if k = k' then (k', f v) # kvs else (k', v) # dict_map_at k f kvs)"

fun deref :: "optimizer \<Rightarrow> tensor_ref \<Rightarrow> error + ndarray" where
  "deref optimizer (Wrapped t) = Inr t"
| "deref optimizer (StateField pid name) =
     (case map_of (state optimizer) pid of
        None \<Rightarrow> Inl KeyError
      | Some param_state \<Rightarrow>
          (case map_of param_state name of
             Some (TensorV t) \<Rightarrow> Inr t
           | _ \<Rightarrow> Inl KeyError))"

fun assign :: "tensor_ref \<Rightarrow> ndarray \<Rightarrow> optimizer \<Rightarrow> tensor_ref \<times> optimizer" where
  "assign (Wrapped _) t optimizer = (Wrapped t, optimizer)"
| "assign (StateField pid name) t optimizer =
     (StateField pid name,
      optimizer\<lparr>state := dict_map_at pid (dict_set name (TensorV t)) (state optimizer)\<rparr>)"

text \<open>
  The second loop of \<^verbatim>\<open>broadcast_parameters\<close>: waiting for the handles in the order in which
  they were issued.  Once a wait returns, the tensor holds the received value; when a wait
  raises, the tensors of the earlier handles have been overwritten and the loop is left.
\<close>

fun synchronize_all ::
  "env \<Rightarrow> nat \<Rightarrow> (string option \<times> tensor_ref) list \<Rightarrow> optimizer
   \<Rightarrow> error option \<times> (string option \<times> tensor_ref) list \<times> optimizer \<times> event list" where
  "synchronize_all e root_rank [] optimizer = (None, [], optimizer, [])"
| "synchronize_all e root_rank ((name, r) # rest) optimizer =
     (case (case deref optimizer r of Inl er \<Rightarrow> Inl er | Inr t \<Rightarrow> received e root_rank name t) of
        Inl er \<Rightarrow> (Some er, (name, r) # rest, optimizer, [Synchronize name])
      | Inr t' \<Rightarrow>
          (case assign r t' optimizer of
             (r', optimizer') \<Rightarrow>
               (case synchronize_all e root_rank rest optimizer' of
                  (res, rest', optimizer'', evs) \<Rightarrow>
                    (res, (name, r') # rest', optimizer'', Synchronize name # evs))))"

definition broadcast_parameters ::
  "env \<Rightarrow> tensor_ref params_arg \<Rightarrow> nat \<Rightarrow> optimizer
   \<Rightarrow> error option \<times> (string option \<times> tensor_ref) list \<times> optimizer \<times> event list" where
  "broadcast_parameters e ps root_rank optimizer =
     (case named ps of
        Inl er \<Rightarrow> (Some er, [], optimizer, [])
      | Inr nps \<Rightarrow>
          (case synchronize_all e root_rank nps optimizer of
             (res, nps', optimizer', evs) \<Rightarrow>
               (res, nps', optimizer', map (\<lambda>(name, p). BroadcastAsync name) nps @ evs)))"

subsection \<open>Reconstruction callbacks (lines 128-136 and 180-183)\<close>

definition wrapped :: "(string option \<times> tensor_ref) list \<Rightarrow> nat \<Rightarrow> error + ndarray" where
  "wrapped ps j =
     (if j < length ps
      then (case snd (ps ! j) of Wrapped t \<Rightarrow> Inr t | StateField _ _ \<Rightarrow> Inl RuntimeError)
      else Inl IndexError)"

definition set_state_field :: "nat \<Rightarrow> string \<Rightarrow> entry \<Rightarrow> optimizer \<Rightarrow> error + optimizer" where
  "set_state_field pid name v optimizer =
     (case map_of (state optimizer) pid of
        None \<Rightarrow> Inl KeyError
      | Some _ \<Rightarrow> Inr (optimizer\<lparr>state := dict_map_at pid (dict_set name v) (state optimizer)\<rparr>))"

definition set_option :: "nat \<Rightarrow> string \<Rightarrow> pyval \<Rightarrow> optimizer \<Rightarrow> error + optimizer" where
  "set_option index option_key v optimizer =
     (if index < length (param_groups optimizer)
      then Inr (optimizer\<lparr>param_groups :=
             (param_groups optimizer)
               [index := (param_groups optimizer ! index)
                  \<lparr>options := dict_set option_key v (options (param_groups optimizer ! index))\<rparr>]\<rparr>)
      else Inl IndexError)"

text \<open>Running a callback: \<^verbatim>\<open>_from_tensor()\<close> of either kind.\<close>

fun from_tensor ::
  "callback \<Rightarrow> (string option \<times> tensor_ref) list \<Rightarrow> optimizer \<Rightarrow> error + optimizer" where
  "from_tensor (StateCallback pid name t j) ps optimizer =
     (case wrapped ps j of
        Inl er \<Rightarrow> Inl er
      | Inr p \<Rightarrow>
          (case numpy0 p of
             Inl er \<Rightarrow> Inl er
           | Inr x \<Rightarrow>
               (case call_type t x of
                  Inl er \<Rightarrow> Inl er
                | Inr v \<Rightarrow> set_state_field pid name (Plain v) optimizer)))"
| "from_tensor (OptionCallback index option_key j dtypes) ps optimizer =
     (case wrapped ps j of
        Inl er \<Rightarrow> Inl er
      | Inr option_tensor \<Rightarrow>
          (case numpy0 option_tensor of
             Inl er \<Rightarrow> Inl er
           | Inr x \<Rightarrow>
               (case recursive_cast x dtypes of
                  Inl er \<Rightarrow> Inl er
                | Inr v \<Rightarrow> set_option index option_key v optimizer)))"

fun run_callbacks ::
  "(string \<Rightarrow> callback option) \<Rightarrow> (string option \<times> tensor_ref) list \<Rightarrow> string list \<Rightarrow> optimizer
   \<Rightarrow> error option \<times> optimizer \<times> event list" where
  "run_callbacks cbs ps [] optimizer = (None, optimizer, [])"
| "run_callbacks cbs ps (key # keys) optimizer =
     (case cbs key of
        None \<Rightarrow> run_callbacks cbs ps keys optimizer
      | Some cb \<Rightarrow>
          (case from_tensor cb ps optimizer of
             Inl er \<Rightarrow> (Some er, optimizer, [Callback key])
           | Inr optimizer' \<Rightarrow>
               (case run_callbacks cbs ps keys optimizer' of
                  (res, optimizer'', evs) \<Rightarrow> (res, optimizer'', Callback key # evs))))"

subsection \<open>broadcast\_optimizer\_state (lines 62-183)\<close>

definition broadcast_optimizer_state :: "env \<Rightarrow> optimizer \<Rightarrow> nat \<Rightarrow> outcome" where
  "broadcast_optimizer_state e optimizer root_rank =
     (if is_lbfgs optimizer then Raised ValueError optimizer []
      else
        (case initialize e optimizer of
           (opt1, ev1) \<Rightarrow>
             if length (state opt1) = 0 then Returned opt1 ev1
             else
               (case collect_groups (state opt1) 0 (param_groups opt1) empty_batch of
                  Inl er \<Rightarrow> Raised er opt1 ev1
                | Inr b \<Rightarrow>
                    (case broadcast_parameters e
                            (ParamsList (map (\<lambda>(key, p). (Some key, p)) (named_params b)))
                            root_rank opt1 of
                       (Some er, ps, opt2, ev2) \<Rightarrow> Raised er opt2 (ev1 @ ev2)
                     | (None, ps, opt2, ev2) \<Rightarrow>
                         (case run_callbacks (callbacks b) ps (map fst (named_params b)) opt2 of
                            (Some er, opt3, ev3) \<Rightarrow> Raised er opt3 (ev1 @ ev2 @ ev3)
                          | (None, opt3, ev3) \<Rightarrow> Returned opt3 (ev1 @ ev2 @ ev3))))))"

section \<open>Example optimizers and environments\<close>

text \<open>
  Concrete inputs on which the functions are evaluated below.  \<open>fill f t\<close> is the tensor of
  the shape of \<open>t\<close> whose elements all are \<open>f\<close>.
\<close>

fun fill :: "pyfloat \<Rightarrow> ndarray \<Rightarrow> ndarray" where
  "fill f (Elem _) = Elem f"
| "fill f (Rows rs) = Rows (map (fill f) rs)"

definition example_param :: "nat \<Rightarrow> bool \<Rightarrow> param" where
  "example_param pid rg =
     \<lparr>p_id = pid, requires_grad = rg, p_data = Rows [Elem (Fin 1)], grad = None\<rparr>"

definition populate :: "optimizer \<Rightarrow> optimizer" where
  "populate optimizer =
     optimizer\<lparr>state := [(0, [(''step'', Plain (VInt 1)),
                               (''momentum_buffer'', TensorV (Rows [Elem (Fin 0)]))])]\<rparr>"

text \<open>
  A freshly created optimizer wrapped by \<^verbatim>\<open>DistributedOptimizer\<close>: one group, a parameter
  that requires gradients and one that does not, no state yet.
\<close>

definition fresh_optimizer :: optimizer where
  "fresh_optimizer =
     \<lparr>is_lbfgs = False, in_distributed_module = True,
      param_groups = [\<lparr>options = [(''lr'', VInt 1)],
                       params = [example_param 0 True, example_param 1 False]\<rparr>],
      state = []\<rparr>"

text \<open>
  The root rank's environment: a broadcast leaves the root's tensors as they are.  The
  parent class's step populates the state; the distributed step is never to be called and
  leaves the optimizer alone here.
\<close>

definition root_env :: env where
  "root_env = \<lparr>step = (\<lambda>optimizer. optimizer), super_step = populate,
               received = (\<lambda>root_rank name t. Inr t)\<rparr>"

text \<open>Another rank's environment: every broadcast delivers a tensor of twos.\<close>

definition follower_env :: env where
  "follower_env = \<lparr>step = populate, super_step = populate,
                   received = (\<lambda>root_rank name t. Inr (fill (Fin 2) t))\<rparr>"

text \<open>
  An environment in which every broadcast delivers a tensor of twos, except the one named
  \<^verbatim>\<open>exp_avg_sq.1\<close>, which fails.
\<close>

definition failing_env :: env where
  "failing_env = \<lparr>step = populate, super_step = populate,
                  received = (\<lambda>root_rank name t.
                     if name = Some ''exp_avg_sq.1'' then Inl HorovodInternalError
                     else Inr (fill (Fin 2) t))\<rparr>"

text \<open>An optimizer of the kind of Adam with one parameter and initialised state.\<close>

definition adam_like :: optimizer where
  "adam_like =
     \<lparr>is_lbfgs = False, in_distributed_module = False,
      param_groups = [\<lparr>options = [(''lr'', VInt 1), (''betas'', VTuple [VInt 0, VInt 1]),
                                  (''amsgrad'', VBool False)],
                       params = [example_param 0 True, example_param 1 False]\<rparr>],
      state = [(0, [(''step'', Plain (VInt 5)),
                    (''exp_avg'', TensorV (Rows [Elem (Fin 0)])),
                    (''exp_avg_sq'', TensorV (Rows [Elem (Fin 0)]))])]\<rparr>"

text \<open>
  An optimizer with two groups that keeps a counter \<^verbatim>\<open>step\<close> both as an option of every
  group and as a state field of every parameter.
\<close>

definition two_group_optimizer :: optimizer where
  "two_group_optimizer =
     \<lparr>is_lbfgs = False, in_distributed_module = False,
      param_groups = [\<lparr>options = [(''step'', VInt 3)], params = [example_param 0 True]\<rparr>,
                      \<lparr>options = [(''step'', VInt 4)], params = [example_param 1 True]\<rparr>],
      state = [(0, [(''step'', Plain (VInt 5))]), (1, [(''step'', Plain (VInt 6))])]\<rparr>"

definition lbfgs_optimizer :: optimizer where
  "lbfgs_optimizer = adam_like\<lparr>is_lbfgs := True\<rparr>"


fun optimizer_of :: "outcome \<Rightarrow> optimizer" where
  "optimizer_of (Raised _ optimizer _) = optimizer"
| "optimizer_of (Returned optimizer _) = optimizer"

text \<open>A slot of the optimizer: the option of a group, or the state field of a parameter.\<close>

definition option_slot :: "optimizer \<Rightarrow> nat \<Rightarrow> string \<Rightarrow> pyval option" where
  "option_slot optimizer index option_key =
     (if index < length (param_groups optimizer)
      then map_of (options (param_groups optimizer ! index)) option_key else None)"

definition state_slot :: "optimizer \<Rightarrow> nat \<Rightarrow> string \<Rightarrow> entry option" where
  "state_slot optimizer pid name =
     (case map_of (state optimizer) pid of
        None \<Rightarrow> None
      | Some param_state \<Rightarrow> map_of param_state name)"



text \<open>Keeping only the parameters that satisfy a predicate, in every group.\<close>

definition restrict_params :: "(param \<Rightarrow> bool) \<Rightarrow> optimizer \<Rightarrow> optimizer" where
  "restrict_params P optimizer =
     optimizer\<lparr>param_groups :=
       map (\<lambda>g. g\<lparr>params := filter P (params g)\<rparr>) (param_groups optimizer)\<rparr>"






section \<open>Slots written by callbacks\<close>

text \<open>
  The place a callback writes to: an option of a group (lines 133-136) or a state field of a
  parameter (lines 128-131); the position in \<^verbatim>\<open>params\<close> of the tensor it captured; and the value
  it computes from the tensors of the batch.
\<close>

datatype slot = OptionSlot nat string | StateSlot nat string

fun target :: "callback \<Rightarrow> slot" where
  "target (OptionCallback index option_key _ _) = OptionSlot index option_key"
| "target (StateCallback pid name _ _) = StateSlot pid name"

fun captured :: "callback \<Rightarrow> nat" where
  "captured (OptionCallback _ _ j _) = j"
| "captured (StateCallback _ _ _ j) = j"

fun convert :: "callback \<Rightarrow> ndarray \<Rightarrow> error + pyval" where
  "convert (OptionCallback _ _ _ dtypes) x = recursive_cast x dtypes"
| "convert (StateCallback _ _ t _) x = call_type t x"

definition read_slot :: "optimizer \<Rightarrow> slot \<Rightarrow> entry option" where
  "read_slot optimizer s =
     (case s of
        OptionSlot index option_key \<Rightarrow> map_option Plain (option_slot optimizer index option_key)
      | StateSlot pid name \<Rightarrow> state_slot optimizer pid name)"

text \<open>
  \<open>holds b key cb t\<close>: the callback \<open>cb\<close> is registered under \<open>key\<close>, and the tensor it
  captured is the entry of \<^verbatim>\<open>params\<close> with that key and wraps \<open>t\<close>.  \<open>extends b b'\<close>: the batch
  \<open>b'\<close> is \<open>b\<close> with entries appended, and the callbacks under all other keys are the same.
\<close>

definition holds :: "batch \<Rightarrow> string \<Rightarrow> callback \<Rightarrow> ndarray \<Rightarrow> bool" where
  "holds b key cb t \<longleftrightarrow>
     callbacks b key = Some cb \<and> captured cb < length (named_params b)
     \<and> named_params b ! captured cb = (key, Wrapped t)"

definition extends :: "batch \<Rightarrow> batch \<Rightarrow> bool" where
  "extends b b' \<longleftrightarrow>
     (\<exists>new. named_params b' = named_params b @ new
        \<and> (\<forall>key. key \<notin> fst ` set new \<longrightarrow> callbacks b' key = callbacks b key))"

text \<open>The parameter identities of all groups, in order.\<close>

definition all_pids :: "group list \<Rightarrow> nat list" where
  "all_pids gs = concat (map (\<lambda>g. map p_id (params g)) gs)"

section \<open>Properties of the object exchange\<close>

subsection \<open>Auxiliary facts\<close>

lemma sequence_map_Inr:
  "(\<And>x. x \<in> set xs \<Longrightarrow> f x = Inr (g x)) \<Longrightarrow> sequence (map f xs) = Inr (map g xs)"
  by (induction xs) auto

lemma sint_word_of_nat_small:
  assumes "n < 2 ^ 31"
  shows "sint (word_of_nat n :: int32) = int n"
proof -
  have "sint (word_of_nat n :: int32) = signed_take_bit 31 (int n)"
    by (simp add: signed_of_nat)
  also have "\<dots> = int n"
    using assms by (simp add: signed_take_bit_int_eq_self)
  finally show ?thesis .
qed

lemma tolist0_IntTensor1: "n < 2 ^ 31 \<Longrightarrow> tolist0 (IntTensor1 n) = Inr (int n)"
  by (simp add: tolist0_def IntTensor1_def sint_word_of_nat_small)

lemma broadcast_inplace_same:
  "rt < length bufs \<Longrightarrow> (\<And>b. b \<in> set bufs \<Longrightarrow> length b = length (bufs ! rt)) \<Longrightarrow>
   broadcast_inplace bufs rt = Inr (replicate (length bufs) (bufs ! rt))"
proof -
  assume a: "rt < length bufs" and b: "\<And>b. b \<in> set bufs \<Longrightarrow> length b = length (bufs ! rt)"
  have "list_all (\<lambda>b. length b = length (bufs ! rt)) bufs"
    using b by (simp add: list_all_iff)
  moreover have "map (\<lambda>_. bufs ! rt) bufs = replicate (length bufs) (bufs ! rt)"
    by (rule map_replicate_const)
  ultimately show ?thesis using a by (simp add: broadcast_inplace_def)
qed

lemma map_upt_nth_const:
  "(\<And>r. r < n \<Longrightarrow> f r = c) \<Longrightarrow> map f [0..<n] = replicate n c"
  by (induction n) (auto simp: replicate_append_same)

lemma segment_of_concat:
  "i < length xss \<Longrightarrow>
   take (length (xss ! i)) (drop (sum_list (map length (take i xss))) (concat xss)) = xss ! i"
proof (induction xss arbitrary: i)
  case Nil then show ?case by simp
next
  case (Cons xs xss)
  then show ?case by (cases i) auto
qed


lemma sum_sint_sizes:
  "(\<And>t. t \<in> set ts \<Longrightarrow> length t < 2 ^ 31) \<Longrightarrow>
   sum_list (map sint (take i (concat (map (\<lambda>t. IntTensor1 (length t)) ts))))
     = int (sum_list (map length (take i ts)))"
proof (induction ts arbitrary: i)
  case Nil then show ?case by simp
next
  case (Cons t ts)
  show ?case
  proof (cases i)
    case 0 then show ?thesis by simp
  next
    case (Suc j)
    have "sint (word_of_nat (length t) :: int32) = int (length t)"
      using Cons.prems by (simp add: sint_word_of_nat_small)
    moreover have "sum_list (map sint (take j (concat (map (\<lambda>t. IntTensor1 (length t)) ts))))
       = int (sum_list (map length (take j ts)))"
      using Cons.prems by (intro Cons.IH) simp
    ultimately show ?thesis using Suc by (simp add: IntTensor1_def)
  qed
qed

lemma sizes_nth:
  "i < length ts \<Longrightarrow> concat (map (\<lambda>t. IntTensor1 (length t)) ts) ! i = word_of_nat (length (ts ! i))"
  by (induction ts arbitrary: i) (auto simp: IntTensor1_def nth_Cons split: nat.splits)

lemma sizes_length: "length (concat (map (\<lambda>t. IntTensor1 (length t)) ts)) = length ts"
  by (induction ts) (auto simp: IntTensor1_def)

lemma py_slice_nonneg:
  "py_slice xs (int a) (int a + int b) = take b (drop a xs)" if "a + b \<le> length xs"
proof -
  have "nat (int a + int b) = a + b" by (simp add: nat_add_distrib)
  then show ?thesis
    using that by (simp add: py_slice_def slice_bound_def Let_def min_def max_def)
qed

lemma prefix_le_total:
  "i < length xss \<Longrightarrow> sum_list (map length (take i xss)) + length (xss ! i) \<le> length (concat xss)"
proof (induction xss arbitrary: i)
  case Nil then show ?case by simp
next
  case (Cons xs xss) then show ?case by (cases i) (auto simp: length_concat)
qed

lemma select_segment:
  assumes "i < length ts" and "\<And>t. t \<in> set ts \<Longrightarrow> length t < 2 ^ 31"
  shows "select (concat (map (\<lambda>t. IntTensor1 (length t)) ts)) (concat ts) i = Inr (ts ! i)"
proof -
  let ?sizes = "concat (map (\<lambda>t. IntTensor1 (length t)) ts)"
  let ?a = "sum_list (map length (take i ts))"
  have s: "sum_list (map sint (take i ?sizes)) = int ?a"
    using assms(2) by (rule sum_sint_sizes)
  have n: "sint (?sizes ! i) = int (length (ts ! i))"
    using assms by (simp add: sizes_nth sint_word_of_nat_small)
  have le: "?a + length (ts ! i) \<le> length (concat ts)"
    using assms(1) by (rule prefix_le_total)
  have "select ?sizes (concat ts) i = Inr (py_slice (concat ts) (int ?a) (int ?a + int (length (ts ! i))))"
    using assms(1) by (simp add: select_def Let_def s n sizes_length)
  also have "py_slice (concat ts) (int ?a) (int ?a + int (length (ts ! i))) = take (length (ts ! i)) (drop ?a (concat ts))"
    using le by (rule py_slice_nonneg)
  also have "\<dots> = ts ! i" using assms(1) by (rule segment_of_concat)
  finally show ?thesis .
qed



subsection \<open>broadcast\_object\<close>

text \<open>
  Claim C1, as amended.  For every world \<open>objs\<close>, every root rank of that world and every
  codec that round-trips the root's object, if the serialised object is shorter than
  \<open>2 ^ 31\<close> bytes then \<open>broadcast_object\<close> returns on every rank the root's original
  object: the size is broadcast first, every other rank allocates a buffer of exactly that
  size, receives the payload and deserialises it.
\<close>

theorem broadcast_object_roundtrip:
  assumes rt: "root_rank < length objs"
    and ser: "load (dump (objs ! root_rank)) = Inr (objs ! root_rank)"
    and len: "length (dump (objs ! root_rank)) < 2 ^ 31"
  shows "broadcast_object dump load objs root_rank
           = Inr (replicate (length objs) (objs ! root_rank))"
proof -
  let ?n = "length objs"
  let ?ranks = "[0..<?n]"
  let ?payload = "dump (objs ! root_rank)"
  let ?szs = "map (\<lambda>r. size_tensor dump root_rank r (objs ! r)) ?ranks"
  have szs_root: "?szs ! root_rank = IntTensor1 (length ?payload)"
    using rt by (simp add: size_tensor_def)
  have "broadcast_inplace ?szs root_rank = Inr (replicate (length ?szs) (?szs ! root_rank))"
  proof (rule broadcast_inplace_same)
    show "root_rank < length ?szs" using rt by simp
    fix b assume "b \<in> set ?szs"
    then have "length b = 1" by (auto simp: size_tensor_def IntTensor1_def)
    then show "length b = length (?szs ! root_rank)"
      by (simp only: szs_root) (simp add: IntTensor1_def)
  qed
  then have step1: "broadcast_inplace ?szs root_rank
      = Inr (replicate ?n (IntTensor1 (length ?payload)))"
    by (simp only: szs_root) simp
  let ?szs' = "replicate ?n (IntTensor1 (length ?payload))"
  let ?g = "\<lambda>r. if r = root_rank then ?payload else replicate (length ?payload) (0::byte)"
  have step2: "sequence (map (\<lambda>r. payload_tensor dump root_rank r (objs ! r) (?szs' ! r)) ?ranks)
      = Inr (map ?g ?ranks)"
  proof (rule sequence_map_Inr)
    fix r assume "r \<in> set ?ranks"
    then have "r < ?n" by simp
    then show "payload_tensor dump root_rank r (objs ! r) (?szs' ! r) = Inr (?g r)"
      using len by (simp add: payload_tensor_def tolist0_IntTensor1 ByteTensor_def)
  qed
  let ?ts = "map ?g ?ranks"
  have ts_root: "?ts ! root_rank = ?payload" using rt by simp
  have "broadcast_inplace ?ts root_rank = Inr (replicate (length ?ts) (?ts ! root_rank))"
  proof (rule broadcast_inplace_same)
    show "root_rank < length ?ts" using rt by simp
    fix b assume "b \<in> set ?ts"
    then have "length b = length ?payload" by auto
    then show "length b = length (?ts ! root_rank)" by (simp only: ts_root)
  qed
  then have step3: "broadcast_inplace ?ts root_rank = Inr (replicate ?n ?payload)"
    by (simp only: ts_root) simp
  have step4: "sequence (map (\<lambda>r. received_object load root_rank r (objs ! r)
                                (replicate ?n ?payload ! r)) ?ranks)
      = Inr (map (\<lambda>r. objs ! root_rank) ?ranks)"
  proof (rule sequence_map_Inr)
    fix r assume "r \<in> set ?ranks"
    then have "r < ?n" by simp
    then show "received_object load root_rank r (objs ! r) (replicate ?n ?payload ! r)
        = Inr (objs ! root_rank)"
      using ser by (simp add: received_object_def)
  qed
  have "map (\<lambda>r. objs ! root_rank) ?ranks = replicate ?n (objs ! root_rank)"
    by (simp add: map_replicate_const)
  then show ?thesis
    unfolding broadcast_object_def Let_def
    by (simp only: step1 step2 step3 step4 sum.case)
qed

theorem broadcast_object_roundtrip_witness:
  "(1::nat) < length [3, 5, 7 :: nat]
   \<and> unary_load (unary_dump ([3, 5, 7] ! 1)) = Inr ([3, 5, 7] ! 1)
   \<and> length (unary_dump ([3, 5, 7] ! 1)) < 2 ^ 31
   \<and> broadcast_object unary_dump unary_load [3, 5, 7] 1 = Inr [5, 5, 5]"
  using broadcast_object_roundtrip [of 1 "[3, 5, 7]" unary_load unary_dump]
  by (simp add: unary_dump_def unary_load_def)

text \<open>
  Claim C1 as stated fails for an object whose serialisation has \<open>2 ^ 31\<close> bytes: the codec
  round-trips it, but its length does not fit the 32-bit size tensor, the other rank reads
  a negative size and the allocation of its buffer raises.
\<close>

theorem broadcast_object_large_counterexample:
  "unary_load (unary_dump (2 ^ 31)) = Inr (2 ^ 31)
   \<and> broadcast_object unary_dump unary_load [2 ^ 31, 0] 0 = Inl RuntimeError"
  by (simp add: broadcast_object_def broadcast_inplace_def size_tensor_def IntTensor1_def
      payload_tensor_def tolist0_def ByteTensor_def unary_dump_def unary_load_def upt_rec)





subsection \<open>allgather\_object\<close>

lemma gather_rank_ok:
  assumes "\<And>i. i < length ts \<Longrightarrow> load (ts ! i) = Inr (os ! i)"
    and "\<And>t. t \<in> set ts \<Longrightarrow> length t < 2 ^ 31"
    and "length os = length ts"
  shows "gather_rank load (length ts) (concat (map (\<lambda>t. IntTensor1 (length t)) ts)) (concat ts)
         = Inr os"
proof -
  have "sequence (map (\<lambda>i. case select (concat (map (\<lambda>t. IntTensor1 (length t)) ts)) (concat ts) i
                            of Inl e \<Rightarrow> Inl e | Inr seg \<Rightarrow> load seg) [0..<length ts])
        = Inr (map (\<lambda>i. os ! i) [0..<length ts])"
  proof (rule sequence_map_Inr)
    fix i assume "i \<in> set [0..<length ts]"
    then have i: "i < length ts" by simp
    show "(case select (concat (map (\<lambda>t. IntTensor1 (length t)) ts)) (concat ts) i
             of Inl e \<Rightarrow> Inl e | Inr seg \<Rightarrow> load seg) = Inr (os ! i)"
      using select_segment [OF i assms(2)] assms(1) [OF i] by simp
  qed
  moreover have "map (\<lambda>i. os ! i) [0..<length ts] = os"
    using assms(3) by (metis map_nth)
  ultimately show ?thesis by (simp add: gather_rank_def)
qed

text \<open>
  Claim C2, as amended.  For every world size and every choice of one object per rank, if
  the codec round-trips every object and every serialised object is shorter than \<open>2 ^ 31\<close>
  bytes, then \<open>allgather_object\<close> returns on every rank the list of all ranks' objects in
  rank order (index \<open>i\<close> holds rank \<open>i\<close>'s object); segment \<open>i\<close> of the gathered buffer
  starts at the sum of the sizes before \<open>i\<close> and has the length \<open>sizes ! i\<close>
  (lemma \<open>select_segment\<close>).
\<close>

theorem allgather_object_roundtrip:
  assumes ser: "\<forall>i<length objs. load (dump (objs ! i)) = Inr (objs ! i)
                                 \<and> length (dump (objs ! i)) < 2 ^ 31"
  shows "allgather_object dump load objs = Inr (replicate (length objs) objs)"
proof -
  let ?n = "length objs"
  let ?ranks = "[0..<?n]"
  let ?ts = "map (\<lambda>r. dump (objs ! r)) ?ranks"
  let ?szs = "map (\<lambda>t. IntTensor1 (length t)) ?ts"
  have g: "gather_rank load (length ?ts) (concat ?szs) (concat ?ts) = Inr objs"
  proof (rule gather_rank_ok)
    show "length objs = length ?ts" by simp
    fix i assume "i < length ?ts"
    then show "load (?ts ! i) = Inr (objs ! i)" using ser by simp
  next
    fix t assume "t \<in> set ?ts"
    then show "length t < 2 ^ 31" using ser by auto
  qed
  have "sequence (map (\<lambda>r. gather_rank load ?n (allgather ?szs ! r) (allgather ?ts ! r)) ?ranks)
        = Inr (map (\<lambda>r. objs) ?ranks)"
  proof (rule sequence_map_Inr)
    fix r assume "r \<in> set ?ranks"
    then have "r < ?n" by simp
    then show "gather_rank load ?n (allgather ?szs ! r) (allgather ?ts ! r) = Inr objs"
      using g by (simp add: allgather_def)
  qed
  moreover have "map (\<lambda>r. objs) ?ranks = replicate ?n objs"
    by (simp add: map_replicate_const)
  ultimately show ?thesis
    unfolding allgather_object_def Let_def by simp
qed

theorem allgather_object_roundtrip_witness:
  "unary_load (unary_dump ([3, 0, 7] ! 0)) = Inr ([3, 0, 7] ! 0)
   \<and> unary_load (unary_dump ([3, 0, 7] ! 1)) = Inr ([3, 0, 7] ! 1)
   \<and> unary_load (unary_dump ([3, 0, 7] ! 2)) = Inr ([3, 0, 7] ! 2)
   \<and> length (unary_dump ([3, 0, 7] ! 0)) < 2 ^ 31
   \<and> length (unary_dump ([3, 0, 7] ! 1)) < 2 ^ 31
   \<and> length (unary_dump ([3, 0, 7] ! 2)) < 2 ^ 31
   \<and> allgather_object unary_dump unary_load [3, 0, 7]
       = Inr [[3, 0, 7], [3, 0, 7], [3, 0, 7]]"
  using allgather_object_roundtrip [of "[3, 0, 7]" unary_load unary_dump]
  by (simp add: unary_dump_def unary_load_def All_less_Suc numeral_3_eq_3)

text \<open>
  Claim C2 as stated fails in a world of one rank whose object serialises to \<open>2 ^ 31\<close>
  bytes: the gathered size is read as a negative number, the segment selected for rank 0 is
  empty, and the call returns another object than the one passed in.
\<close>

theorem allgather_object_large_counterexample:
  "unary_load (unary_dump (2 ^ 31)) = Inr (2 ^ 31)
   \<and> allgather_object unary_dump unary_load [2 ^ 31] = Inr [[0]]"
  by (simp add: allgather_object_def allgather_def gather_rank_def select_def py_slice_def
      slice_bound_def IntTensor1_def unary_dump_def unary_load_def)

section \<open>Properties of wrapping and casting back\<close>

lemmas float32_eval = elem_of_int_def to_f32_def round_bin_def exponent_def ilog2.simps pow2_def round_half_even_def

lemma cast_elements_roundtrip:
  "(\<And>v x. v \<in> set xs \<Longrightarrow> store ns v = Inr x \<Longrightarrow> recursive_cast x (get_types v) = Inr v) \<Longrightarrow>
   sequence (map (store ns) xs) = Inr rs \<Longrightarrow>
   cast_elements rs (map get_types xs) = Inr xs"
proof (induction xs arbitrary: rs)
  case Nil
  then show ?case by simp
next
  case (Cons v vs)
  from Cons.prems(2) obtain r rs' where r: "store ns v = Inr r"
    and rs': "sequence (map (store ns) vs) = Inr rs'" and rs: "rs = r # rs'"
    by (auto split: sum.splits)
  have "recursive_cast r (get_types v) = Inr v"
    using Cons.prems(1) r by simp
  moreover have "cast_elements rs' (map get_types vs) = Inr vs"
    using Cons.IH Cons.prems(1) rs' by simp
  ultimately show ?case by (simp add: rs)
qed

lemma store_roundtrip:
  "exact v \<Longrightarrow> store ns v = Inr x \<Longrightarrow> recursive_cast x (get_types v) = Inr v"
proof (induction v arbitrary: ns x)
  case (VInt n)
  then show ?case by (cases ns) (auto split: sum.splits)
next
  case (VFloat f)
  then show ?case by (cases ns) auto
next
  case (VBool b)
  then show ?case by (cases ns) auto
next
  case (VTuple xs)
  from VTuple.prems(2) obtain n ns' rs where ns: "ns = n # ns'"
    and rs: "sequence (map (store ns') xs) = Inr rs" and x: "x = Rows rs"
    by (cases ns) (auto split: sum.splits if_splits)
  have "cast_elements rs (map get_types xs) = Inr xs"
  proof (rule cast_elements_roundtrip [OF _ rs])
    fix v y assume "v \<in> set xs" "store ns' v = Inr y"
    then show "recursive_cast y (get_types v) = Inr v"
      using VTuple.IH VTuple.prems(1) by (simp add: list_all_iff)
  qed
  then show ?case by (simp add: x)
next
  case (VList xs)
  from VList.prems(2) obtain n ns' rs where ns: "ns = n # ns'"
    and rs: "sequence (map (store ns') xs) = Inr rs" and x: "x = Rows rs"
    by (cases ns) (auto split: sum.splits if_splits)
  have "cast_elements rs (map get_types xs) = Inr xs"
  proof (rule cast_elements_roundtrip [OF _ rs])
    fix v y assume "v \<in> set xs" "store ns' v = Inr y"
    then show "recursive_cast y (get_types v) = Inr v"
      using VList.IH VList.prems(1) by (simp add: list_all_iff)
  qed
  then show ?case by (simp add: x)
qed

lemma Tensor1_numpy0:
  "Tensor1 v = Inr t \<Longrightarrow> \<exists>x. numpy0 t = Inr x \<and> store (shape_of v) v = Inr x"
  by (auto simp: Tensor1_def numpy0_def split: sum.splits)


lemma ilog2_bounds: "0 < n \<Longrightarrow> 2 ^ ilog2 n \<le> n \<and> n < 2 ^ Suc (ilog2 n)"
proof (induction n rule: ilog2.induct)
  case (1 n)
  show ?case
  proof (cases "n < 2")
    case True
    with "1.prems" show ?thesis by (simp add: ilog2.simps)
  next
    case False
    then have "0 < n div 2" by simp
    with "1.IH" False have ih: "2 ^ ilog2 (n div 2) \<le> n div 2" "n div 2 < 2 ^ Suc (ilog2 (n div 2))"
      by simp_all
    have eq: "ilog2 n = Suc (ilog2 (n div 2))" using False by (subst ilog2.simps) simp
    from ih show ?thesis unfolding eq by simp linarith
  qed
qed

lemma ilog2_le: "0 < n \<Longrightarrow> n \<le> 2 ^ k \<Longrightarrow> ilog2 n \<le> k"
proof (rule ccontr)
  assume n: "0 < n" "n \<le> 2 ^ k" and "\<not> ilog2 n \<le> k"
  then have "Suc k \<le> ilog2 n" by simp
  then have "(2::nat) ^ Suc k \<le> 2 ^ ilog2 n" by (rule power_increasing) simp
  also have "\<dots> \<le> n" using ilog2_bounds [OF n(1)] by simp
  finally have "2 * 2 ^ k \<le> n" by simp
  moreover have "0 < (2::nat) ^ k" by simp
  ultimately show False using n(2) by linarith
qed

lemma round_half_even_one: "round_half_even a 1 = a"
  by (simp add: round_half_even_def)

lemma exponent_of_int:
  assumes "n \<noteq> 0"
  shows "exponent (of_int n) = int (ilog2 (nat \<bar>n\<bar>))"
proof -
  have pos: "0 < nat \<bar>n\<bar>" using assms by simp
  have "(2::nat) ^ ilog2 (nat \<bar>n\<bar>) \<le> nat \<bar>n\<bar>" using ilog2_bounds [OF pos] by simp
  then have "int ((2::nat) ^ ilog2 (nat \<bar>n\<bar>)) \<le> \<bar>n\<bar>" by linarith
  then have "(of_int (int ((2::nat) ^ ilog2 (nat \<bar>n\<bar>))) :: rat) \<le> of_int \<bar>n\<bar>"
    by (simp only: of_int_le_iff)
  then have "(2::rat) ^ ilog2 (nat \<bar>n\<bar>) \<le> \<bar>of_int n\<bar>" by simp
  then show ?thesis
    by (simp add: exponent_def pow2_def ilog2.simps)
qed


lemma round_bin_small_int:
  assumes nz: "n \<noteq> 0" and small: "\<bar>n\<bar> \<le> 2 ^ 24"
  shows "round_bin 24 (- 126) 127 (of_int n) = Fin (of_int n)"
proof -
  define e where "e = ilog2 (nat \<bar>n\<bar>)"
  have pos: "0 < nat \<bar>n\<bar>" using nz by simp
  have "nat \<bar>n\<bar> \<le> 2 ^ 24" using small by simp
  then have e24: "e \<le> 24" unfolding e_def using pos by (intro ilog2_le) simp_all
  have lower: "2 ^ e \<le> nat \<bar>n\<bar>" unfolding e_def using ilog2_bounds [OF pos] by simp
  have ex: "exponent (of_int n) = int e" unfolding e_def by (rule exponent_of_int [OF nz])
  have k: "max (int e) (- 126) - (int 24 - 1) = int e - 23" by simp
  have no_overflow: "\<not> pow2 (127 + 1) \<le> \<bar>of_int n :: rat\<bar>"
  proof -
    have "\<bar>of_int n :: rat\<bar> = of_int \<bar>n\<bar>" by simp
    also have "\<dots> \<le> of_int (2 ^ 24)" using small by (simp only: of_int_le_iff)
    also have "\<dots> < pow2 (127 + 1)" by (simp add: pow2_def)
    finally show ?thesis by simp
  qed
  have y1: "rat_of_int (round_half_even n (2 ^ nat (int e - 23))) * pow2 (int e - 23) = rat_of_int n"
    if "23 \<le> e"
  proof -
    from that consider "e = 23" | "e = 24" using e24 by linarith
    then show ?thesis
    proof cases
      case 1
      then show ?thesis by (simp add: round_half_even_one pow2_def)
    next
      case 2
      then have "2 ^ 24 \<le> nat \<bar>n\<bar>" using lower by simp
      then have "\<bar>n\<bar> = 2 ^ 24" using small by simp
      then have "n = 2 ^ 24 \<or> n = - (2 ^ 24)" by linarith
      then show ?thesis using 2 by (auto simp: round_half_even_def pow2_def)
    qed
  qed
  have y2: "rat_of_int (round_half_even (n * 2 ^ nat (23 - int e)) 1) * pow2 (int e - 23) = rat_of_int n"
    if "\<not> 23 \<le> e"
  proof -
    have "nat (23 - int e) = 23 - e" by simp
    moreover have "pow2 (int e - 23) = 1 / 2 ^ (23 - e)"
      using that by (simp add: pow2_def)
    ultimately show ?thesis by (simp add: round_half_even_one)
  qed
  have nzr: "(of_int n :: rat) \<noteq> 0" using nz by simp
  show ?thesis
    unfolding round_bin_def
    using no_overflow
    by (simp add: nz Let_def ex y1 y2 abs_if split: if_splits)
qed

lemma exact_small_int: "\<bar>n\<bar> \<le> 2 ^ 24 \<Longrightarrow> exact (VInt n)"
proof (cases "n = 0")
  case True
  then show ?thesis by (simp add: elem_of_int_def to_f32_def round_bin_def)
next
  case False
  assume "\<bar>n\<bar> \<le> 2 ^ 24"
  then show ?thesis
    using round_bin_small_int [OF False]
    by (simp add: elem_of_int_def to_f32_def)
qed


text \<open>
  Claim C4, as amended.  Wrapping a value in a float32 tensor and casting the tensor's
  first entry back with the signature that \<open>get_types\<close> computes returns the value, for
  every value that the tensor constructor accepts (a scalar or a rectangular nesting of
  tuples and lists) and whose leaves a float32 element holds exactly: truth values, integers
  and floats that narrowing to float32 leaves unchanged, among them every integer of
  magnitude at most \<open>2 ^ 24\<close> (lemma \<open>exact_small_int\<close>).
\<close>

theorem recursive_cast_lossless:
  assumes "Tensor1 v = Inr t" and "exact v"
  shows "\<exists>x. numpy0 t = Inr x \<and> recursive_cast x (get_types v) = Inr v"
proof -
  from Tensor1_numpy0 [OF assms(1)] obtain x
    where x: "numpy0 t = Inr x" "store (shape_of v) v = Inr x" by blast
  from store_roundtrip [OF assms(2) x(2)] x(1) show ?thesis by blast
qed

lemma quotient_of_half: "quotient_of (1 / 2) = (1, 2)" by code_simp
lemma quotient_of_three_quarters: "quotient_of (3 / 4) = (3, 4)" by code_simp

lemma to_f32_half: "to_f32 (Fin (1 / 2)) = Fin (1 / 2)"
  by (simp add: float32_eval quotient_of_half)
lemma to_f32_three_quarters: "to_f32 (Fin (3 / 4)) = Fin (3 / 4)"
  by (simp add: float32_eval quotient_of_three_quarters)

lemma Tensor1_example: "Tensor1 (VTuple [VTuple [VFloat (Fin (1 / 2)), VFloat (Fin (3 / 4))], VTuple [VInt 3, VBool True]])
   = Inr (Rows [Rows [Rows [Elem (Fin (1 / 2)), Elem (Fin (3 / 4))], Rows [Elem (Fin 3), Elem (Fin 1)]]])"
  by (simp add: Tensor1_def to_f32_half to_f32_three_quarters) (simp add: float32_eval)

lemma exact_example: "exact (VTuple [VTuple [VFloat (Fin (1 / 2)), VFloat (Fin (3 / 4))], VTuple [VInt 3, VBool True]])"
  by (simp add: to_f32_half to_f32_three_quarters) (simp add: float32_eval)

theorem recursive_cast_lossless_witness:
  "Tensor1 (VTuple [VTuple [VFloat (Fin (1 / 2)), VFloat (Fin (3 / 4))], VTuple [VInt 3, VBool True]])
     = Inr (Rows [Rows [Rows [Elem (Fin (1 / 2)), Elem (Fin (3 / 4))], Rows [Elem (Fin 3), Elem (Fin 1)]]])
   \<and> exact (VTuple [VTuple [VFloat (Fin (1 / 2)), VFloat (Fin (3 / 4))], VTuple [VInt 3, VBool True]])
   \<and> recursive_cast (Rows [Rows [Elem (Fin (1 / 2)), Elem (Fin (3 / 4))], Rows [Elem (Fin 3), Elem (Fin 1)]])
         (get_types (VTuple [VTuple [VFloat (Fin (1 / 2)), VFloat (Fin (3 / 4))], VTuple [VInt 3, VBool True]]))
       = Inr (VTuple [VTuple [VFloat (Fin (1 / 2)), VFloat (Fin (3 / 4))], VTuple [VInt 3, VBool True]])"
  using recursive_cast_lossless [OF Tensor1_example exact_example] Tensor1_example exact_example
  by (simp add: numpy0_def)

text \<open>
  Claim C4 as stated fails for the integer \<open>2 ^ 24 + 1\<close>: the tensor's float32 element holds
  \<open>2 ^ 24\<close>, and casting back returns that number.
\<close>

theorem recursive_cast_int_counterexample:
  "Tensor1 (VInt 16777217) = Inr (Rows [Elem (Fin 16777216)])
   \<and> numpy0 (Rows [Elem (Fin 16777216)]) = Inr (Elem (Fin 16777216))
   \<and> recursive_cast (Elem (Fin 16777216)) (get_types (VInt 16777217)) = Inr (VInt 16777216)"
  by (simp add: Tensor1_def numpy0_def float32_eval)

text \<open>
  The same happens to a float that is not a float32 number: the double nearest to one
  tenth, a common learning rate, comes back as the float32 number nearest to it.
\<close>

lemma quotient_of_tenth: "quotient_of (3602879701896397 / 36028797018963968) = (3602879701896397, 36028797018963968)"
  by code_simp

lemma learning_rate_not_exact:
  "to_f32 (Fin (3602879701896397 / 36028797018963968)) = Fin (13421773 / 134217728)"
  by (simp add: float32_eval quotient_of_tenth)

text \<open>Values that the tensor constructor rejects, and the empty tuple.\<close>

lemma Tensor1_ragged: "Tensor1 (VTuple [VTuple [VInt 1, VInt 2], VTuple [VInt 1]]) = Inl ValueError"
  by (simp add: Tensor1_def float32_eval)
lemma Tensor1_mixed_depth: "Tensor1 (VTuple [VInt 1, VTuple [VInt 1]]) = Inl TypeError"
  by (simp add: Tensor1_def float32_eval)
lemma Tensor1_empty_tuple: "Tensor1 (VTuple []) = Inr (Rows [Rows []])"
  by (simp add: Tensor1_def float32_eval)

section \<open>Properties of broadcast\_optimizer\_state\<close>

subsection \<open>Evaluation on concrete inputs\<close>

lemmas key_eval = format_key_def str_nat.simps digit_char_def

lemmas example_defs = fresh_optimizer_def root_env_def follower_env_def failing_env_def
  adam_like_def two_group_optimizer_def lbfgs_optimizer_def example_param_def populate_def

lemmas run_defs = broadcast_optimizer_state_def initialize_def zero_grads_def zero_grad_events_def
  needs_grad_def empty_batch_def broadcast_parameters_def named_def wrapped_def
  set_state_field_def set_option_def Tensor1_def numpy0_def

lemma elem_of_int_small: "\<bar>n\<bar> \<le> 2 ^ 24 \<Longrightarrow> elem_of_int n = Inr (Fin (of_int n))"
  using exact_small_int [of n] by simp

lemmas run_eval = run_defs example_defs key_eval elem_of_int_small Let_def

subsection \<open>Rejection of L-BFGS\<close>

text \<open>
  Claim C8.  For an optimizer that is an instance of \<^verbatim>\<open>torch.optim.LBFGS\<close> the call raises
  (the source raises \<^verbatim>\<open>ValueError\<close>), whatever the environment: the trace is empty, so no
  gradient was assigned, no step and no collective call was made, and the optimizer is the
  one passed in.
\<close>

theorem lbfgs_rejected:
  "is_lbfgs optimizer \<Longrightarrow>
   broadcast_optimizer_state e optimizer root_rank = Raised ValueError optimizer []"
  by (simp add: broadcast_optimizer_state_def)

theorem lbfgs_rejected_witness:
  "is_lbfgs lbfgs_optimizer
   \<and> broadcast_optimizer_state follower_env lbfgs_optimizer 0 = Raised ValueError lbfgs_optimizer []"
  using lbfgs_rejected [of lbfgs_optimizer follower_env 0]
  by (simp add: lbfgs_optimizer_def)

subsection \<open>The events of the phases\<close>








subsection \<open>Lazy initialisation\<close>




subsection \<open>Parameters without state\<close>



lemma state_restrict [simp]: "state (restrict_params P opt) = state opt"
  by (simp add: restrict_params_def)

lemma deref_restrict [simp]: "deref (restrict_params P opt) r = deref opt r"
  by (cases r) simp_all











subsection \<open>Failure of the batched broadcast\<close>






lemma synchronize_all_error_last:
  "synchronize_all e rr nps opt = (Some er, nps', opt', evs) \<Longrightarrow>
   evs \<noteq> [] \<and> (\<exists>name. last evs = Synchronize name)"
proof (induction nps arbitrary: opt nps' opt' evs)
  case Nil
  then show ?case by simp
next
  case (Cons np nps)
  obtain name r where np: "np = (name, r)" by (cases np)
  show ?case
  proof (cases "case deref opt r of Inl er \<Rightarrow> Inl er | Inr t \<Rightarrow> received e rr name t")
    case (Inl er')
    with Cons.prems np show ?thesis by auto
  next
    case (Inr t')
    obtain r' o1 where a: "assign r t' opt = (r', o1)" by (cases "assign r t' opt")
    obtain res2 rest2 o2 evs2 where s: "synchronize_all e rr nps o1 = (res2, rest2, o2, evs2)"
      by (cases "synchronize_all e rr nps o1")
    from Cons.prems np Inr a s have "res2 = Some er" "evs = Synchronize name # evs2" by simp_all
    with Cons.IH [of o1 rest2 o2 evs2] s show ?thesis by auto
  qed
qed








lemma params_of_assign:
  "map params (param_groups (snd (assign r t opt))) = map params (param_groups opt)"
  by (cases r) simp_all








lemma follower_run:
  "broadcast_optimizer_state follower_env adam_like 0 =
   Returned
     (adam_like\<lparr>param_groups :=
                   [\<lparr>options = [(''lr'', VInt 2), (''betas'', VTuple [VInt 2, VInt 2]),
                                (''amsgrad'', VBool True)],
                     params = [example_param 0 True, example_param 1 False]\<rparr>],
                 state := [(0, [(''step'', Plain (VInt 2)),
                                (''exp_avg'', TensorV (Rows [Elem (Fin 2)])),
                                (''exp_avg_sq'', TensorV (Rows [Elem (Fin 2)]))])]\<rparr>)
     [BroadcastAsync (Some ''lr.0''), BroadcastAsync (Some ''betas.0''),
      BroadcastAsync (Some ''amsgrad.0''), BroadcastAsync (Some ''step.1''),
      BroadcastAsync (Some ''exp_avg.1''), BroadcastAsync (Some ''exp_avg_sq.1''),
      Synchronize (Some ''lr.0''), Synchronize (Some ''betas.0''),
      Synchronize (Some ''amsgrad.0''), Synchronize (Some ''step.1''),
      Synchronize (Some ''exp_avg.1''), Synchronize (Some ''exp_avg_sq.1''),
      Callback ''lr.0'', Callback ''betas.0'', Callback ''amsgrad.0'', Callback ''step.1'']"
  by (simp add: run_eval)


subsection \<open>Keys of the batch\<close>

text \<open>
  Claim C3 fails on the code where an option and a state field have the same name.  In the
  optimizer with two groups, the option \<^verbatim>\<open>step\<close> of group 1 and the first occurrence of the
  state field \<^verbatim>\<open>step\<close> both get the key \<^verbatim>\<open>step.1\<close>.  The option's callback replaces the
  state field's callback under that key and runs twice; the state field \<^verbatim>\<open>step\<close> of
  parameter 0 keeps its local value 5 although every broadcast delivered the value 2.
\<close>

theorem key_collision:
  "map_sum id (\<lambda>b. map fst (named_params b))
     (collect_groups (state two_group_optimizer) 0 (param_groups two_group_optimizer) empty_batch)
     = Inr [''step.0'', ''step.1'', ''step.1'', ''step.2'']
   \<and> map_sum id (\<lambda>b. callbacks b ''step.1'')
     (collect_groups (state two_group_optimizer) 0 (param_groups two_group_optimizer) empty_batch)
     = Inr (Some (OptionCallback 1 ''step'' 2 (Scalar TInt)))
   \<and> state_slot (optimizer_of (broadcast_optimizer_state follower_env two_group_optimizer 0)) 0 ''step''
     = Some (Plain (VInt 5))
   \<and> state_slot (optimizer_of (broadcast_optimizer_state follower_env two_group_optimizer 0)) 1 ''step''
     = Some (Plain (VInt 2))"
  by (simp add: run_eval state_slot_def)

end
